theory Spec2Isabelle
  imports
    Complex_Main
    "HOL-Library.Multiset"
    "HOL-Library.Char_ord"
    "HOL-Library.List_Lexorder"
    "HOL-Library.Product_Lexorder"
begin

section \<open>Strings and exceptions\<close>

text \<open>
  Python strings are modelled as lists of 8-bit characters read as ASCII:
  \<open>lower\<close> folds the letters A-Z only and \<open>strip\<close> removes ASCII white space only.
  An exception that leaves a function is a value \<open>Inl e\<close> of the result.
\<close>

datatype error = ValueError | TypeError | OSError | OverflowError

definition lower_char :: "char \<Rightarrow> char" where
  "lower_char c =
     (case map_of (zip ''ABCDEFGHIJKLMNOPQRSTUVWXYZ'' ''abcdefghijklmnopqrstuvwxyz'') c of
        None \<Rightarrow> c
      | Some d \<Rightarrow> d)"

definition lower :: "string \<Rightarrow> string" where
  "lower s = map lower_char s"

definition is_space :: "char \<Rightarrow> bool" where
  "is_space c = (c \<in> set [CHR 0x09, CHR 0x0A, CHR 0x0B, CHR 0x0C, CHR 0x0D,
                           CHR 0x1C, CHR 0x1D, CHR 0x1E, CHR 0x1F, CHR 0x20])"

definition strip_chars :: "(char \<Rightarrow> bool) \<Rightarrow> string \<Rightarrow> string" where
  "strip_chars P s = rev (dropWhile P (rev (dropWhile P s)))"

definition strip :: "string \<Rightarrow> string" where
  "strip s = strip_chars is_space s"

definition startswith :: "string \<Rightarrow> string \<Rightarrow> bool" where
  "startswith s p = (take (length p) s = p)"

definition endswith :: "string \<Rightarrow> string \<Rightarrow> bool" where
  "endswith s t = (length t \<le> length s \<and> drop (length s - length t) s = t)"

text \<open>\<open>sub in s\<close> for strings.\<close>

fun contains :: "string \<Rightarrow> string \<Rightarrow> bool" where
  "contains [] sub = (sub = [])"
| "contains (c # cs) sub = (startswith (c # cs) sub \<or> contains cs sub)"

text \<open>\<open>s.split(sep)\<close> with a one-character separator.\<close>

fun split_on :: "char \<Rightarrow> string \<Rightarrow> string list" where
  "split_on sep [] = [[]]"
| "split_on sep (c # cs) =
     (if c = sep then [] # split_on sep cs
      else (case split_on sep cs of
              [] \<Rightarrow> [[c]]
            | w # ws \<Rightarrow> (c # w) # ws))"

text \<open>\<open>str(n)\<close> for a non-negative integer: its decimal digits.\<close>

definition digit_char :: "nat \<Rightarrow> char" where
  "digit_char d = ''0123456789'' ! d"

fun str_nat :: "nat \<Rightarrow> string" where
  "str_nat n =
     (if n < 10 then [digit_char n]
      else str_nat (n div 10) @ [digit_char (n mod 10)])"

declare str_nat.simps [simp del]

definition str_int :: "int \<Rightarrow> string" where
  "str_int i = (if i < 0 then ''-'' @ str_nat (nat (- i)) else str_nat (nat i))"

section \<open>Extensions\<close>

text \<open>\<open>normalize_extension\<close>: strip, lower, reject the empty string, add the leading dot.\<close>

definition normalize_extension :: "string \<Rightarrow> error + string" where
  "normalize_extension raw_extension =
     (let ext = lower (strip raw_extension) in
      if ext = [] then Inl ValueError
      else if \<not> startswith ext ''.'' then Inr (''.'' @ ext)
      else Inr ext)"

text \<open>
  \<open>matches_extension\<close>: the loop keeps the longest normalized extension the lowered name
  ends with in \<open>best_match\<close>; the function returns whether there is one. A blank
  extension raises from \<open>normalize_extension\<close> when the loop reaches it.
\<close>

fun matches_extension_loop :: "string \<Rightarrow> string list \<Rightarrow> string option \<Rightarrow> error + string option" where
  "matches_extension_loop lower_name [] best_match = Inr best_match"
| "matches_extension_loop lower_name (ext # extensions) best_match =
     (case normalize_extension ext of
        Inl e \<Rightarrow> Inl e
      | Inr normalized \<Rightarrow>
          matches_extension_loop lower_name extensions
            (if endswith lower_name normalized then
               (case best_match of
                  None \<Rightarrow> Some normalized
                | Some b \<Rightarrow> if length normalized > length b then Some normalized else Some b)
             else best_match))"

definition matches_extension :: "string \<Rightarrow> string list \<Rightarrow> error + bool" where
  "matches_extension filename extensions =
     (case matches_extension_loop (lower filename) extensions None of
        Inl e \<Rightarrow> Inl e
      | Inr best_match \<Rightarrow> Inr (best_match \<noteq> None))"

section \<open>Paths\<close>

text \<open>
  A \<open>pathlib\<close> POSIX path: whether it has the root, and its components after the
  root. \<open>parse_path\<close> is \<open>Path(s)\<close> for a string: empty and \<open>.\<close> segments are dropped.
  (The POSIX special case of exactly two leading slashes is not modelled.)
\<close>

datatype path = Path (is_absolute: bool) (tail: "string list")

definition parse_path :: "string \<Rightarrow> path" where
  "parse_path s =
     Path (startswith s ''/'')
          (filter (\<lambda>seg. seg \<noteq> [] \<and> seg \<noteq> ''.'') (split_on CHR ''/'' s))"

text \<open>\<open>a / b\<close>: an absolute right operand replaces the left one.\<close>

definition join_path :: "path \<Rightarrow> path \<Rightarrow> path" where
  "join_path a b = (if is_absolute b then b else Path (is_absolute a) (tail a @ tail b))"

definition path_name :: "path \<Rightarrow> string" where
  "path_name p = (if tail p = [] then [] else last (tail p))"

text \<open>\<open>p.parents\<close>: the proper ancestors, nearest first.\<close>

definition parents :: "path \<Rightarrow> path list" where
  "parents p = map (\<lambda>k. Path (is_absolute p) (take k (tail p))) (rev [0 ..< length (tail p)])"

definition intercalate :: "string \<Rightarrow> string list \<Rightarrow> string" where
  "intercalate sep xs = (case xs of [] \<Rightarrow> [] | y # ys \<Rightarrow> y @ concat (map (\<lambda>z. sep @ z) ys))"

text \<open>\<open>str(p)\<close>.\<close>

definition path_str :: "path \<Rightarrow> string" where
  "path_str p =
     (if is_absolute p then ''/'' @ intercalate ''/'' (tail p)
      else if tail p = [] then ''.''
      else intercalate ''/'' (tail p))"

text \<open>
  \<open>p.with_name(n)\<close> raises \<open>ValueError\<close> when \<open>p\<close> has an empty name and when the new
  name is empty, contains the separator or is a single dot.
\<close>

definition with_name :: "path \<Rightarrow> string \<Rightarrow> error + path" where
  "with_name p n =
     (if path_name p = [] then Inl ValueError
      else if n = [] \<or> CHR ''/'' \<in> set n \<or> n = ''.'' then Inl ValueError
      else Inr (Path (is_absolute p) (butlast (tail p) @ [n])))"

text \<open>
  \<open>PurePath.suffixes\<close> of a name (CPython 3.9 to 3.13): nothing when the name ends with
  a dot; otherwise, after the leading dots are dropped, every dot-separated piece but
  the first, each with its dot. \<open>path_suffix\<close> is \<open>PurePath.suffix\<close>.
\<close>

definition suffixes :: "string \<Rightarrow> string list" where
  "suffixes nm =
     (if endswith nm ''.'' then []
      else map (\<lambda>s. ''.'' @ s) (tl (split_on CHR ''.'' (dropWhile (\<lambda>c. c = CHR ''.'') nm))))"

definition path_suffix :: "string \<Rightarrow> string" where
  "path_suffix nm =
     (if CHR ''.'' \<notin> set nm then []
      else (let i = length nm - 1 - length (takeWhile (\<lambda>c. c \<noteq> CHR ''.'') (rev nm)) in
            if 0 < i \<and> i < length nm - 1 then drop i nm else []))"

definition split_base_and_suffix :: "string \<Rightarrow> string \<times> string" where
  "split_base_and_suffix filename =
     (let suffix = concat (suffixes (path_name (parse_path filename)));
          base = (if suffix \<noteq> [] \<and> endswith (lower filename) (lower suffix)
                  then take (length filename - length suffix) filename
                  else filename)
      in if base = [] then (filename, []) else (base, suffix))"

section \<open>Collision resolution\<close>

text \<open>
  The file system enters as the set \<open>fs\<close> of the paths for which \<open>exists()\<close> answers
  yes. The \<open>while True\<close> loop has no bound in the source, so it is a partial function:
  \<open>None\<close> is a loop that never returns, \<open>Some (Inl e)\<close> an exception and
  \<open>Some (Inr (p, renamed))\<close> the returned pair.
\<close>

definition candidate_name :: "string \<Rightarrow> string \<Rightarrow> nat \<Rightarrow> string" where
  "candidate_name base suffix index = base @ '' ('' @ str_nat index @ '')'' @ suffix"

partial_function (option) resolve_loop ::
  "path set \<Rightarrow> path set \<Rightarrow> path \<Rightarrow> string \<Rightarrow> string \<Rightarrow> nat \<Rightarrow> (error + path \<times> bool) option" where
  "resolve_loop fs occupied_targets target base suffix index =
     (case with_name target (candidate_name base suffix index) of
        Inl e \<Rightarrow> Some (Inl e)
      | Inr candidate \<Rightarrow>
          if candidate \<notin> fs \<and> candidate \<notin> occupied_targets then Some (Inr (candidate, True))
          else resolve_loop fs occupied_targets target base suffix (index + 1))"

declare resolve_loop.simps [code]

definition resolve_collision :: "path set \<Rightarrow> path \<Rightarrow> path set \<Rightarrow> (error + path \<times> bool) option" where
  "resolve_collision fs target occupied_targets =
     (if target \<notin> fs \<and> target \<notin> occupied_targets then Some (Inr (target, False))
      else (case split_base_and_suffix (path_name target) of
              (base, suffix) \<Rightarrow> resolve_loop fs occupied_targets target base suffix 1))"

text \<open>The path the loop tries at \<open>index\<close>, when \<open>with_name\<close> accepts the new name.\<close>

definition candidate :: "path \<Rightarrow> string \<Rightarrow> string \<Rightarrow> nat \<Rightarrow> path" where
  "candidate target base suffix index =
     Path (is_absolute target) (butlast (tail target) @ [candidate_name base suffix index])"


section \<open>Conditions, rules and items\<close>

text \<open>
  A condition value is a configuration scalar or a list of scalars (floats, dates and
  nested tables of the configuration format are outside the model). \<open>py_str\<close>,
  \<open>py_bool\<close> and \<open>py_int\<close> are \<open>str()\<close>, \<open>bool()\<close> and \<open>int()\<close> on them;
  \<open>py_int\<close> answers \<open>None\<close> where \<open>int()\<close> raises \<open>TypeError\<close> or \<open>ValueError\<close>.
\<close>

datatype scalar = SStr string | SInt int | SBool bool | SNone

datatype cond_value = Scalar scalar | ListValue "scalar list"

record condition =
  ctype :: string
  cvalue :: cond_value

record rule =
  rule_id :: string
  description :: string
  subfolder :: string
  enabled :: bool
  built_in :: bool
  mode :: string
  conditions :: "condition list"

record item_info =
  path :: path
  relative_path :: path
  name :: string
  is_dir :: bool
  is_symlink :: bool
  size_bytes :: int
  created_at :: int
  has_tag :: bool

definition lower_name :: "item_info \<Rightarrow> string" where
  "lower_name item = lower (name item)"

fun py_str :: "scalar \<Rightarrow> string" where
  "py_str (SStr s) = s"
| "py_str (SInt i) = str_int i"
| "py_str (SBool b) = (if b then ''True'' else ''False'')"
| "py_str SNone = ''None''"

fun scalar_bool :: "scalar \<Rightarrow> bool" where
  "scalar_bool (SStr s) = (s \<noteq> [])"
| "scalar_bool (SInt i) = (i \<noteq> 0)"
| "scalar_bool (SBool b) = b"
| "scalar_bool SNone = False"

fun py_bool :: "cond_value \<Rightarrow> bool" where
  "py_bool (Scalar v) = scalar_bool v"
| "py_bool (ListValue vs) = (vs \<noteq> [])"

definition is_digit :: "char \<Rightarrow> bool" where
  "is_digit c = (c \<in> set ''0123456789'')"

text \<open>
  The decimal literals \<open>int()\<close> accepts after the sign: digits, with single underscores
  between digits.
\<close>

fun literal_ok :: "string \<Rightarrow> bool" where
  "literal_ok [] = False"
| "literal_ok [c] = is_digit c"
| "literal_ok (c # d # cs) =
     (is_digit c \<and> (if d = CHR ''_'' then literal_ok cs else literal_ok (d # cs)))"

definition digits_value :: "string \<Rightarrow> nat" where
  "digits_value s = foldl (\<lambda>acc c. acc * 10 + (of_char c - 48)) 0 (filter is_digit s)"

definition parse_int :: "string \<Rightarrow> int option" where
  "parse_int s =
     (let t = strip s;
          negative = startswith t ''-'';
          body = (if startswith t ''-'' \<or> startswith t ''+'' then tl t else t)
      in if literal_ok body
         then Some (if negative then - int (digits_value body) else int (digits_value body))
         else None)"

fun py_int :: "cond_value \<Rightarrow> int option" where
  "py_int (Scalar (SInt i)) = Some i"
| "py_int (Scalar (SBool b)) = Some (if b then 1 else 0)"
| "py_int (Scalar (SStr s)) = parse_int s"
| "py_int (Scalar SNone) = None"
| "py_int (ListValue vs) = None"

fun ensure_condition_list :: "cond_value \<Rightarrow> scalar list" where
  "ensure_condition_list (ListValue vs) = vs"
| "ensure_condition_list (Scalar v) = [v]"

text \<open>
  \<open>normalize_identifier\<close>: strip, lower, every run of characters outside \<open>a-z0-9\<close>
  becomes one underscore, and the underscores at both ends are removed.
\<close>

definition is_alnum :: "char \<Rightarrow> bool" where
  "is_alnum c = (c \<in> set ''abcdefghijklmnopqrstuvwxyz0123456789'')"

fun squash_from :: "bool \<Rightarrow> string \<Rightarrow> string" where
  "squash_from in_run [] = []"
| "squash_from in_run (c # cs) =
     (if is_alnum c then c # squash_from False cs
      else if in_run then squash_from True cs
      else CHR ''_'' # squash_from True cs)"

definition normalize_identifier :: "string \<Rightarrow> string" where
  "normalize_identifier v =
     strip_chars (\<lambda>c. c = CHR ''_'') (squash_from False (lower (strip v)))"

text \<open>A list comprehension whose element function may raise: the first exception wins.\<close>

fun map_result :: "('a \<Rightarrow> error + 'b) \<Rightarrow> 'a list \<Rightarrow> error + 'b list" where
  "map_result f [] = Inr []"
| "map_result f (x # xs) =
     (case f x of
        Inl e \<Rightarrow> Inl e
      | Inr y \<Rightarrow> (case map_result f xs of Inl e \<Rightarrow> Inl e | Inr ys \<Rightarrow> Inr (y # ys)))"

text \<open>\<open>build_kind_extensions\<close>: the table of extension groups (a set is listed in some order).\<close>

definition build_kind_extensions :: "string \<Rightarrow> string list option" where
  "build_kind_extensions = map_of
     [(''image'', [''.png'', ''.jpg'', ''.jpeg'', ''.gif'', ''.webp'', ''.svg'', ''.avif'', ''.bmp'',
                   ''.heic'', ''.tif'', ''.tiff'', ''.ico'', ''.jfif'']),
      (''image_png'', [''.png'']),
      (''document'', [''.pdf'', ''.doc'', ''.docx'', ''.odt'', ''.pages'', ''.txt'', ''.rtf'', ''.md'',
                      ''.markdown'', ''.epub'']),
      (''audio'', [''.mp3'', ''.wav'', ''.m4a'', ''.aac'', ''.flac'', ''.ogg'', ''.opus'', ''.aif'', ''.aiff'']),
      (''video'', [''.mp4'', ''.mov'', ''.mkv'', ''.avi'', ''.wmv'', ''.webm'', ''.m4v'', ''.ts'', ''.mts'']),
      (''archive'', [''.zip'', ''.rar'', ''.7z'', ''.tar'', ''.gz'', ''.tar.gz'', ''.tgz'', ''.bz2'', ''.xz'',
                     ''.zst'', ''.cab'']),
      (''code'', [''.py'', ''.js'', ''.ts'', ''.tsx'', ''.jsx'', ''.java'', ''.c'', ''.cpp'', ''.h'', ''.hpp'',
                  ''.go'', ''.rs'', ''.rb'', ''.php'', ''.swift'', ''.kt'', ''.json'', ''.sql'', ''.ini'',
                  ''.cfg'', ''.conf'', ''.toml'', ''.yaml'', ''.yml'', ''.xml'', ''.html'', ''.css'',
                  ''.scss'', ''.sh'', ''.zsh''])]"

definition match_kind :: "item_info \<Rightarrow> string \<Rightarrow> (string \<Rightarrow> string list option) \<Rightarrow> error + bool" where
  "match_kind item kind_value kind_map =
     (let normalized = normalize_identifier kind_value in
      if normalized = ''folder'' then Inr (is_dir item)
      else if normalized = ''alias'' \<or> normalized = ''symlink'' then Inr (is_symlink item)
      else (case kind_map normalized of
              None \<Rightarrow> Inr False
            | Some extensions \<Rightarrow>
                if is_dir item then Inr False else matches_extension (name item) extensions))"

text \<open>
  Times are microseconds since the epoch. \<open>created_within_days\<close> calls \<open>float(value)\<close>
  and builds \<open>timedelta(days=...)\<close>: \<open>timedelta_of_days\<close> answers \<open>None\<close> where \<open>float()\<close>
  raises the \<open>TypeError\<close> or \<open>ValueError\<close> that the source catches, \<open>Some (Inl e)\<close> where
  \<open>float()\<close> or \<open>timedelta\<close> raises anything else, and the length of the interval
  otherwise. Floating-point parsing of a string value is the parameter \<open>str_days\<close>.
  The subtraction raises \<open>OverflowError\<close> outside the years 1 to 9999.
\<close>

definition timedelta_of_days :: "(string \<Rightarrow> (error + int) option) \<Rightarrow> cond_value \<Rightarrow> (error + int) option" where
  "timedelta_of_days str_days v =
     (case v of
        Scalar (SInt n) \<Rightarrow>
          Some (if \<bar>n\<bar> > 999999999 then Inl OverflowError else Inr (n * 86400000000))
      | Scalar (SBool b) \<Rightarrow> Some (Inr (if b then 86400000000 else 0))
      | Scalar (SStr s) \<Rightarrow> str_days s
      | Scalar SNone \<Rightarrow> None
      | ListValue vs \<Rightarrow> None)"

definition datetime_min :: int where
  "datetime_min = - 62135596800000000"

definition datetime_max :: int where
  "datetime_max = 253402300799999999"

definition created_within_days :: "(string \<Rightarrow> (error + int) option) \<Rightarrow> cond_value \<Rightarrow> item_info \<Rightarrow> int \<Rightarrow> error + bool" where
  "created_within_days str_days v item reference_time =
     (case timedelta_of_days str_days v of
        None \<Rightarrow> Inr False
      | Some (Inl e) \<Rightarrow> Inl e
      | Some (Inr delta) \<Rightarrow>
          (let cutoff = reference_time - delta in
           if cutoff < datetime_min \<or> datetime_max < cutoff then Inl OverflowError
           else Inr (created_at item \<ge> cutoff)))"


section \<open>Condition evaluator and rule matcher\<close>

definition evaluate_condition ::
  "(string \<Rightarrow> (error + int) option) \<Rightarrow> condition \<Rightarrow> item_info \<Rightarrow> int
     \<Rightarrow> (string \<Rightarrow> string list option) \<Rightarrow> error + bool" where
  "evaluate_condition str_days cond item reference_time kind_map =
     (let ct = normalize_identifier (ctype cond); v = cvalue cond in
      if ct = ''extension_any'' then
        (case map_result (\<lambda>ext. normalize_extension (py_str ext)) (ensure_condition_list v) of
           Inl e \<Rightarrow> Inl e
         | Inr vals \<Rightarrow> if is_dir item then Inr False else matches_extension (name item) vals)
      else if ct = ''name_contains'' then
        Inr (list_ex (\<lambda>sub. contains (lower_name item) sub)
               (map (\<lambda>part. lower (py_str part)) (ensure_condition_list v)))
      else if ct = ''kind'' then
        (case v of
           Scalar (SStr s) \<Rightarrow> match_kind item s kind_map
         | _ \<Rightarrow> Inr False)
      else if ct = ''created_within_days'' then
        created_within_days str_days v item reference_time
      else if ct = ''size_gte'' then
        (case py_int v of None \<Rightarrow> Inr False | Some threshold \<Rightarrow> Inr (size_bytes item \<ge> threshold))
      else if ct = ''size_lte'' then
        (case py_int v of None \<Rightarrow> Inr False | Some threshold \<Rightarrow> Inr (size_bytes item \<le> threshold))
      else if ct = ''is_folder'' then Inr (is_dir item = py_bool v)
      else if ct = ''is_alias'' then Inr (is_symlink item = py_bool v)
      else if ct = ''has_tag'' then Inr (has_tag item = py_bool v)
      else Inr False)"

text \<open>
  \<open>matches_rule\<close> evaluates every condition (the list comprehension) before it looks at
  the mode, so an exception in any condition leaves the function.
\<close>

definition matches_rule ::
  "(string \<Rightarrow> (error + int) option) \<Rightarrow> rule \<Rightarrow> item_info \<Rightarrow> int
     \<Rightarrow> (string \<Rightarrow> string list option) \<Rightarrow> error + bool" where
  "matches_rule str_days r item reference_time kind_map =
     (if \<not> enabled r then Inr False
      else if conditions r = [] then Inr False
      else (case map_result (\<lambda>c. evaluate_condition str_days c item reference_time kind_map)
                   (conditions r) of
              Inl e \<Rightarrow> Inl e
            | Inr results \<Rightarrow>
                if mode r = ''any'' then Inr (list_ex (\<lambda>b. b) results)
                else Inr (list_all (\<lambda>b. b) results)))"

text \<open>The inner loop of \<open>plan_moves\<close>: the first rule of the list that matches.\<close>

fun first_match ::
  "(string \<Rightarrow> (error + int) option) \<Rightarrow> rule list \<Rightarrow> item_info \<Rightarrow> int
     \<Rightarrow> (string \<Rightarrow> string list option) \<Rightarrow> error + rule option" where
  "first_match str_days [] item reference_time kind_map = Inr None"
| "first_match str_days (r # rs) item reference_time kind_map =
     (case matches_rule str_days r item reference_time kind_map of
        Inl e \<Rightarrow> Inl e
      | Inr True \<Rightarrow> Inr (Some r)
      | Inr False \<Rightarrow> first_match str_days rs item reference_time kind_map)"

section \<open>Priority optimizer\<close>










section \<open>Item scanner\<close>

text \<open>
  The directory tree under the source root, as the scan reads it: for every entry its
  name, whether \<open>is_dir()\<close> holds (a link to a directory counts), whether it is a
  symbolic link, its size and modification time, whether it carries the Finder tag
  attribute, and for a directory its entries in listing order. Symbolic link
  resolution, \<open>Path.resolve\<close>, is the parameter \<open>resolve\<close>. Logging is left out.
\<close>

datatype fsnode =
  FsNode (node_name: string) (node_is_dir: bool) (node_is_symlink: bool) (node_size: int)
         (node_mtime: int) (node_tagged: bool) (node_children: "fsnode list")

record scan_options =
  include_subfolders :: bool
  include_folders :: bool
  include_empty_folders :: bool
  ignore_extensions :: "string list"
  ignore_paths :: "string list"
  ignore_aliases :: bool
  ignore_folders :: bool
  include_tagged :: bool
  ignore_tagged :: bool
  skip_bundles :: bool

definition BUNDLE_SUFFIXES :: "string list" where
  "BUNDLE_SUFFIXES = [''.app'', ''.bundle'', ''.framework'', ''.plugin'']"

definition path_matches_ignore :: "(path \<Rightarrow> path) \<Rightarrow> path \<Rightarrow> path \<Rightarrow> string list \<Rightarrow> bool" where
  "path_matches_ignore resolve p rel ignore_tokens =
     (if ignore_tokens = [] then False
      else lower (path_str rel) \<in> set ignore_tokens
         \<or> lower (path_name p) \<in> set ignore_tokens
         \<or> lower (path_str (resolve p)) \<in> set ignore_tokens)"

text \<open>
  \<open>should_skip_path\<close> for the path \<open>p\<close> whose path relative to the source is \<open>rel\<close>;
  a skipped path adds one to the ignored count at the call site.
\<close>

definition should_skip_path :: "(path \<Rightarrow> path) \<Rightarrow> path \<Rightarrow> string list \<Rightarrow> path \<Rightarrow> path \<Rightarrow> bool" where
  "should_skip_path resolve destination_resolved ignore_tokens p rel =
     (resolve p = destination_resolved
      \<or> destination_resolved \<in> set (parents (resolve p))
      \<or> path_matches_ignore resolve p rel ignore_tokens)"

definition build_item_info :: "path \<Rightarrow> path \<Rightarrow> fsnode \<Rightarrow> bool \<Rightarrow> bool \<Rightarrow> item_info" where
  "build_item_info p rel node as_dir with_tags =
     \<lparr>path = p, relative_path = rel, name = path_name p, is_dir = as_dir,
      is_symlink = node_is_symlink node,
      size_bytes = (if as_dir then 0 else node_size node),
      created_at = node_mtime node,
      has_tag = (if with_tags then node_tagged node else False)\<rparr>"

definition child_path :: "path \<Rightarrow> fsnode \<Rightarrow> path" where
  "child_path parent node = join_path parent (parse_path (node_name node))"

text \<open>
  One file entry, in both scan modes: the candidate it yields, if any, and what it adds
  to the ignored count.
\<close>

definition scan_file ::
  "scan_options \<Rightarrow> (path \<Rightarrow> path) \<Rightarrow> path \<Rightarrow> path \<Rightarrow> path \<Rightarrow> fsnode
     \<Rightarrow> error + item_info option \<times> nat" where
  "scan_file opts resolve destination_resolved parent parent_rel node =
     (let file_path = child_path parent node; rel = child_path parent_rel node in
      if should_skip_path resolve destination_resolved (ignore_paths opts) file_path rel
      then Inr (None, 1)
      else
        (let info = build_item_info file_path rel node False (include_tagged opts) in
         if ignore_aliases opts \<and> is_symlink info then Inr (None, 1)
         else if ignore_tagged opts \<and> has_tag info then Inr (None, 1)
         else (case matches_extension (name info) (ignore_extensions opts) of
                 Inl e \<Rightarrow> Inl e
               | Inr True \<Rightarrow> Inr (None, 1)
               | Inr False \<Rightarrow> Inr (Some info, 0))))"

text \<open>One directory entry of the top-level scan (\<open>include_subfolders\<close> off).\<close>

definition scan_dir_flat ::
  "scan_options \<Rightarrow> (path \<Rightarrow> path) \<Rightarrow> path \<Rightarrow> path \<Rightarrow> path \<Rightarrow> fsnode
     \<Rightarrow> error + item_info option \<times> nat" where
  "scan_dir_flat opts resolve destination_resolved parent parent_rel node =
     (let entry = child_path parent node; rel = child_path parent_rel node in
      if should_skip_path resolve destination_resolved (ignore_paths opts) entry rel
      then Inr (None, 1)
      else if skip_bundles opts \<and> lower (path_suffix (path_name entry)) \<in> set BUNDLE_SUFFIXES
      then Inr (None, 1)
      else if \<not> include_folders opts \<or> ignore_folders opts then Inr (None, 1)
      else if include_empty_folders opts \<and> node_children node \<noteq> [] then Inr (None, 1)
      else
        (let info = build_item_info entry rel node True (include_tagged opts) in
         if ignore_tagged opts \<and> has_tag info then Inr (None, 1)
         else Inr (Some info, 0)))"

text \<open>Running a per-entry step over a list, appending candidates and adding counts.\<close>

fun collect :: "('a \<Rightarrow> error + item_info option \<times> nat) \<Rightarrow> 'a list \<Rightarrow> error + item_info list \<times> nat" where
  "collect step [] = Inr ([], 0)"
| "collect step (x # xs) =
     (case step x of
        Inl e \<Rightarrow> Inl e
      | Inr (found, n) \<Rightarrow>
          (case collect step xs of
             Inl e \<Rightarrow> Inl e
           | Inr (items, m) \<Rightarrow> Inr ((case found of None \<Rightarrow> items | Some i \<Rightarrow> i # items), n + m)))"

fun concat_scans :: "(error + item_info list \<times> nat) list \<Rightarrow> error + item_info list \<times> nat" where
  "concat_scans [] = Inr ([], 0)"
| "concat_scans (r # rs) =
     (case r of
        Inl e \<Rightarrow> Inl e
      | Inr (items, n) \<Rightarrow>
          (case concat_scans rs of
             Inl e \<Rightarrow> Inl e
           | Inr (rest_items, m) \<Rightarrow> Inr (items @ rest_items, n + m)))"

definition scan_flat ::
  "scan_options \<Rightarrow> (path \<Rightarrow> path) \<Rightarrow> path \<Rightarrow> path \<Rightarrow> fsnode list \<Rightarrow> error + item_info list \<times> nat" where
  "scan_flat opts resolve destination_resolved source_dir entries =
     collect (\<lambda>node.
        if node_is_dir node
        then scan_dir_flat opts resolve destination_resolved source_dir (Path False []) node
        else scan_file opts resolve destination_resolved source_dir (Path False []) node)
       (sort_key (\<lambda>node. lower (path_name (child_path source_dir node))) entries)"

text \<open>
  The recursive scan follows \<open>os.walk\<close> top down. In a directory that is not skipped,
  the sub-directories are pruned first (\<open>pruned\<close>), the remaining ones are offered as
  folder candidates when folders are included (\<open>folder_candidate\<close>), then the files are
  scanned, and afterwards the walk descends into each remaining sub-directory that is
  not a symbolic link.
\<close>

definition pruned :: "scan_options \<Rightarrow> (path \<Rightarrow> path) \<Rightarrow> path \<Rightarrow> path \<Rightarrow> path \<Rightarrow> fsnode \<Rightarrow> bool" where
  "pruned opts resolve destination_resolved root_path root_rel node =
     (let dir_path = child_path root_path node in
      should_skip_path resolve destination_resolved (ignore_paths opts) dir_path
          (child_path root_rel node)
      \<or> (skip_bundles opts \<and> lower (path_suffix (path_name dir_path)) \<in> set BUNDLE_SUFFIXES))"

definition folder_candidate ::
  "scan_options \<Rightarrow> path \<Rightarrow> path \<Rightarrow> fsnode \<Rightarrow> error + item_info option \<times> nat" where
  "folder_candidate opts root_path root_rel node =
     (if ignore_folders opts then Inr (None, 1)
      else if include_empty_folders opts \<and> node_children node \<noteq> [] then Inr (None, 0)
      else
        (let info = build_item_info (child_path root_path node) (child_path root_rel node) node
                      True (include_tagged opts) in
         if ignore_tagged opts \<and> has_tag info then Inr (None, 1)
         else Inr (Some info, 0)))"

fun walk ::
  "scan_options \<Rightarrow> (path \<Rightarrow> path) \<Rightarrow> path \<Rightarrow> path \<Rightarrow> path \<Rightarrow> fsnode
     \<Rightarrow> error + item_info list \<times> nat" where
  "walk opts resolve destination_resolved root_path root_rel
        (FsNode nm dirflag linkflag sz mt tg entries) =
     (if should_skip_path resolve destination_resolved (ignore_paths opts) root_path root_rel
      then Inr ([], 1)
      else
        (let dirnames = filter node_is_dir entries;
             filenames = filter (\<lambda>e. \<not> node_is_dir e) entries;
             filtered_dirs =
               filter (\<lambda>d. \<not> pruned opts resolve destination_resolved root_path root_rel d) dirnames;
             pruned_count = length dirnames - length filtered_dirs
         in concat_scans
              ([Inr ([], pruned_count),
                (if include_folders opts
                 then collect (folder_candidate opts root_path root_rel) filtered_dirs
                 else Inr ([], 0)),
                collect (scan_file opts resolve destination_resolved root_path root_rel) filenames]
               @ map (\<lambda>d. if node_is_symlink d then Inr ([], 0)
                          else walk opts resolve destination_resolved
                                 (child_path root_path d) (child_path root_rel d) d)
                   filtered_dirs)))"

definition iter_candidate_items ::
  "scan_options \<Rightarrow> (path \<Rightarrow> path) \<Rightarrow> path \<Rightarrow> path \<Rightarrow> fsnode \<Rightarrow> error + item_info list \<times> nat" where
  "iter_candidate_items opts resolve source_dir destination_dir tree =
     (if include_subfolders opts
      then walk opts resolve (resolve destination_dir) source_dir (Path False []) tree
      else scan_flat opts resolve (resolve destination_dir) source_dir (node_children tree))"

section \<open>Planner\<close>

record move_plan =
  source :: path
  destination :: path
  plan_rule_id :: string
  rule_description :: string
  collision_renamed :: bool

record tidy_summary =
  scanned :: nat
  ignored :: nat
  total_targets :: nat
  matched :: nat
  unclassified :: nat
  fallback_mime :: nat
  rule_hits :: "string \<Rightarrow> nat option"
  planned_moves :: nat
  moved :: nat
  collisions :: nat
  errors :: nat
  rules_used :: nat

definition empty_summary :: tidy_summary where
  "empty_summary =
     \<lparr>scanned = 0, ignored = 0, total_targets = 0, matched = 0, unclassified = 0,
      fallback_mime = 0, rule_hits = Map.empty, planned_moves = 0, moved = 0, collisions = 0,
      errors = 0, rules_used = 0\<rparr>"

text \<open>The mutable state of the planning loop.\<close>

record plan_state =
  occupied_targets :: "path set"
  plans :: "move_plan list"
  summary :: tidy_summary
  used_rules :: "string set"

text \<open>
  One pass of the loop over the candidates. \<open>fs\<close> is the set of existing paths, which
  planning only reads. \<open>None\<close> is a collision loop that never returns.
\<close>

definition plan_item ::
  "(string \<Rightarrow> (error + int) option) \<Rightarrow> path set \<Rightarrow> path \<Rightarrow> rule list \<Rightarrow> int
     \<Rightarrow> (string \<Rightarrow> string list option) \<Rightarrow> item_info \<Rightarrow> plan_state \<Rightarrow> (error + plan_state) option" where
  "plan_item str_days fs destination_dir enabled_rules reference_time kind_map item st =
     (case first_match str_days enabled_rules item reference_time kind_map of
        Inl e \<Rightarrow> Some (Inl e)
      | Inr None \<Rightarrow>
          Some (Inr (st\<lparr>summary := (summary st)\<lparr>unclassified := unclassified (summary st) + 1\<rparr>\<rparr>))
      | Inr (Some matched_rule) \<Rightarrow>
          (let hits = (case rule_hits (summary st) (rule_id matched_rule) of None \<Rightarrow> 0 | Some n \<Rightarrow> n);
               s1 = (summary st)
                      \<lparr>matched := matched (summary st) + 1,
                       rule_hits := (rule_hits (summary st))(rule_id matched_rule \<mapsto> hits + 1),
                       fallback_mime := (if rule_id matched_rule = ''mime_fallback''
                                         then fallback_mime (summary st) + 1
                                         else fallback_mime (summary st))\<rparr>;
               target_dir = join_path destination_dir (parse_path (subfolder matched_rule));
               target = join_path target_dir (parse_path (name item))
           in case resolve_collision fs target (occupied_targets st) of
                None \<Rightarrow> None
              | Some (Inl e) \<Rightarrow> Some (Inl e)
              | Some (Inr (resolved, collided)) \<Rightarrow>
                  Some (Inr
                    \<lparr>occupied_targets = insert resolved (occupied_targets st),
                     plans = plans st @
                       [\<lparr>source = path item, destination = resolved,
                         plan_rule_id = rule_id matched_rule,
                         rule_description = description matched_rule,
                         collision_renamed = collided\<rparr>],
                     summary = (if collided then s1\<lparr>collisions := collisions s1 + 1\<rparr> else s1),
                     used_rules = insert (rule_id matched_rule) (used_rules st)\<rparr>)))"

fun plan_loop ::
  "(string \<Rightarrow> (error + int) option) \<Rightarrow> path set \<Rightarrow> path \<Rightarrow> rule list \<Rightarrow> int
     \<Rightarrow> (string \<Rightarrow> string list option) \<Rightarrow> item_info list \<Rightarrow> plan_state \<Rightarrow> (error + plan_state) option" where
  "plan_loop str_days fs destination_dir enabled_rules reference_time kind_map [] st = Some (Inr st)"
| "plan_loop str_days fs destination_dir enabled_rules reference_time kind_map (item # items) st =
     (case plan_item str_days fs destination_dir enabled_rules reference_time kind_map item st of
        None \<Rightarrow> None
      | Some (Inl e) \<Rightarrow> Some (Inl e)
      | Some (Inr st') \<Rightarrow>
          plan_loop str_days fs destination_dir enabled_rules reference_time kind_map items st')"

text \<open>
  The sort key of the candidates: the number of separators in the relative path, then
  the lowered name. \<open>sort(reverse=True)\<close> keeps the order of equal keys, which is the
  stable sort of the reversed list, reversed.
\<close>

definition candidate_key :: "item_info \<Rightarrow> nat \<times> string" where
  "candidate_key item =
     (count_list (path_str (relative_path item)) CHR ''/'', lower_name item)"

definition sort_candidates :: "item_info list \<Rightarrow> item_info list" where
  "sort_candidates candidates = rev (sort_key candidate_key (rev candidates))"

text \<open>
  \<open>plan_moves\<close>. \<open>reference_time\<close> is the clock reading taken at its start and
  \<open>tree\<close> the directory tree at \<open>source_dir\<close>.
\<close>

definition plan_moves ::
  "(string \<Rightarrow> (error + int) option) \<Rightarrow> (path \<Rightarrow> path) \<Rightarrow> path set \<Rightarrow> int \<Rightarrow> fsnode
     \<Rightarrow> path \<Rightarrow> path \<Rightarrow> rule list \<Rightarrow> scan_options
     \<Rightarrow> (error + move_plan list \<times> tidy_summary) option" where
  "plan_moves str_days resolve fs reference_time tree source_dir destination_dir rules opts =
     (case iter_candidate_items opts resolve source_dir destination_dir tree of
        Inl e \<Rightarrow> Some (Inl e)
      | Inr (candidates, ignored_count) \<Rightarrow>
          (let s0 = empty_summary
                      \<lparr>ignored := ignored_count, scanned := length candidates,
                       total_targets := length candidates\<rparr>;
               enabled_rules = filter enabled rules
           in case plan_loop str_days fs destination_dir enabled_rules reference_time
                     build_kind_extensions (sort_candidates candidates)
                     \<lparr>occupied_targets = {}, plans = [], summary = s0, used_rules = {}\<rparr> of
                None \<Rightarrow> None
              | Some (Inl e) \<Rightarrow> Some (Inl e)
              | Some (Inr st) \<Rightarrow>
                  Some (Inr (plans st,
                     (summary st)
                       \<lparr>planned_moves := length (plans st),
                        unclassified := scanned (summary st) - matched (summary st),
                        rules_used := card (used_rules st)\<rparr>))))"


section \<open>Executor and transaction store\<close>

text \<open>
  The file system is written through operations, which the model records in the order
  they are issued. Whether a move succeeds is decided by the file system: it is the
  parameter \<open>outcome\<close>, which also says which of the two calls in the \<open>try\<close> block
  failed. File-system calls outside a \<open>try\<close> block are taken to succeed.
\<close>

datatype fs_op = Mkdir path | Move path path | Rmdir path | WriteText path

datatype move_outcome = MoveOk | MkdirFailed | MoveFailed

record tx_move =
  move_from :: string
  move_to :: string
  move_rule_id :: string

text \<open>\<open>p.parent\<close>.\<close>

definition parent :: "path \<Rightarrow> path" where
  "parent p = Path (is_absolute p) (butlast (tail p))"

fun execute_moves ::
  "(move_plan \<Rightarrow> move_outcome) \<Rightarrow> move_plan list \<Rightarrow> bool \<Rightarrow> tx_move list \<times> nat \<times> fs_op list" where
  "execute_moves outcome [] apply_mode = ([], 0, [])"
| "execute_moves outcome (move # rest) apply_mode =
     (case execute_moves outcome rest apply_mode of
        (executed, errs, ops) \<Rightarrow>
          if \<not> apply_mode then (executed, errs, ops)
          else (case outcome move of
                  MoveOk \<Rightarrow>
                    (\<lparr>move_from = path_str (source move), move_to = path_str (destination move),
                      move_rule_id = plan_rule_id move\<rparr> # executed,
                     errs,
                     Mkdir (parent (destination move)) # Move (source move) (destination move) # ops)
                | MkdirFailed \<Rightarrow>
                    (executed, errs + 1, Mkdir (parent (destination move)) # ops)
                | MoveFailed \<Rightarrow>
                    (executed, errs + 1,
                     Mkdir (parent (destination move)) # Move (source move) (destination move) # ops)))"



section \<open>Ignore lists\<close>

text \<open>
  A Python set of strings is a list without repetitions here; the order of the list
  stands for the unspecified iteration order of the set.
\<close>

definition DEFAULT_IGNORE_EXTENSIONS :: "string list" where
  "DEFAULT_IGNORE_EXTENSIONS =
     [''.crdownload'', ''.part'', ''.partial'', ''.download'', ''.opdownload'', ''.!qb'', ''.tmp'']"

record config =
  cfg_ignore_extensions :: "string list"
  cfg_ignore_paths :: "string list"

definition combine_ignore_extensions :: "config \<Rightarrow> string list option \<Rightarrow> error + string list" where
  "combine_ignore_extensions cfg cli_extensions =
     (let result = remdups (DEFAULT_IGNORE_EXTENSIONS @ cfg_ignore_extensions cfg) in
      case cli_extensions of
        None \<Rightarrow> Inr result
      | Some exts \<Rightarrow>
          if exts = [] then Inr result
          else (case map_result normalize_extension exts of
                  Inl e \<Rightarrow> Inl e
                | Inr normalized \<Rightarrow> Inr (remdups (result @ normalized))))"


section \<open>The tidy command\<close>









section \<open>Undo\<close>

text \<open>
  A stored record as \<open>load_transactions\<close> returns it. The field \<open>moves\<close> of a record
  may hold anything: \<open>None\<close> is a value that is not a list, and an entry of the list
  that is not a table is \<open>NotADict\<close>; a missing \<open>from\<close> or \<open>to\<close> reads as the empty
  string. \<open>undone_at\<close> counts as set when it is a non-empty string.
\<close>

datatype move_entry = NotADict | MoveEntry (entry_from: string) (entry_to: string)

record stored_record =
  rec_id :: string
  rec_moves :: "move_entry list option"
  rec_removed_dirs :: "string list option"
  rec_undone_at :: "string option"
  rec_path :: path

definition is_undone :: "stored_record \<Rightarrow> bool" where
  "is_undone r = (case rec_undone_at r of None \<Rightarrow> False | Some s \<Rightarrow> s \<noteq> [])"

definition pick_transaction :: "stored_record list \<Rightarrow> string option \<Rightarrow> stored_record option" where
  "pick_transaction records wanted =
     (case wanted of
        None \<Rightarrow> find (\<lambda>r. \<not> is_undone r) records
      | Some i \<Rightarrow> find (\<lambda>r. rec_id r = i) records)"

record undo_result =
  restored :: nat
  undo_collisions :: nat
  undo_errors :: nat

text \<open>One line \<open>UNDO MOVE\<close> or \<open>DRY-RUN UNDO\<close> of the log.\<close>

record undo_step =
  step_source :: path
  step_requested :: path
  step_destination :: path
  step_collided :: bool

record undo_state =
  u_fs :: "path set"
  u_occupied :: "path set"
  u_result :: undo_result
  u_steps :: "undo_step list"
  u_ops :: "fs_op list"

text \<open>
  What a successful move does to the set of existing paths: the source and all below it
  go, the same paths exist below the destination, and so do the ancestors of the
  destination.
\<close>

definition under :: "path \<Rightarrow> path \<Rightarrow> bool" where
  "under a p = (is_absolute a = is_absolute p \<and> take (length (tail a)) (tail p) = tail a)"

definition fs_after_move :: "path set \<Rightarrow> path \<Rightarrow> path \<Rightarrow> path set" where
  "fs_after_move fs src dst =
     {p \<in> fs. \<not> under src p}
     \<union> (\<lambda>p. Path (is_absolute dst) (tail dst @ drop (length (tail src)) (tail p))) ` {p \<in> fs. under src p}
     \<union> set (parents dst)"

definition undo_move ::
  "(path \<Rightarrow> path \<Rightarrow> move_outcome) \<Rightarrow> bool \<Rightarrow> move_entry \<Rightarrow> undo_state \<Rightarrow> (error + undo_state) option" where
  "undo_move outcome apply_mode entry st =
     (case entry of
        NotADict \<Rightarrow>
          Some (Inr (st\<lparr>u_result := (u_result st)\<lparr>undo_errors := undo_errors (u_result st) + 1\<rparr>\<rparr>))
      | MoveEntry recorded_from recorded_to \<Rightarrow>
          (let src = parse_path recorded_to; requested = parse_path recorded_from in
           if src \<notin> u_fs st
           then Some (Inr (st\<lparr>u_result := (u_result st)\<lparr>undo_errors := undo_errors (u_result st) + 1\<rparr>\<rparr>))
           else (case resolve_collision (u_fs st) requested (u_occupied st) of
                   None \<Rightarrow> None
                 | Some (Inl e) \<Rightarrow> Some (Inl e)
                 | Some (Inr (dst, collided)) \<Rightarrow>
                     (let r1 = (if collided
                                then (u_result st)\<lparr>undo_collisions := undo_collisions (u_result st) + 1\<rparr>
                                else u_result st);
                          st1 = st\<lparr>u_occupied := insert dst (u_occupied st), u_result := r1\<rparr>;
                          line = \<lparr>step_source = src, step_requested = requested,
                                  step_destination = dst, step_collided = collided\<rparr>
                      in if \<not> apply_mode then Some (Inr (st1\<lparr>u_steps := u_steps st1 @ [line]\<rparr>))
                         else (case outcome src dst of
                                 MoveOk \<Rightarrow>
                                   Some (Inr (st1
                                     \<lparr>u_fs := fs_after_move (u_fs st1) src dst,
                                      u_result := r1\<lparr>restored := restored r1 + 1\<rparr>,
                                      u_steps := u_steps st1 @ [line],
                                      u_ops := u_ops st1 @ [Mkdir (parent dst), Move src dst]\<rparr>))
                               | MkdirFailed \<Rightarrow>
                                   Some (Inr (st1
                                     \<lparr>u_result := r1\<lparr>undo_errors := undo_errors r1 + 1\<rparr>,
                                      u_ops := u_ops st1 @ [Mkdir (parent dst)]\<rparr>))
                               | MoveFailed \<Rightarrow>
                                   Some (Inr (st1
                                     \<lparr>u_fs := u_fs st1 \<union> set (parents dst),
                                      u_result := r1\<lparr>undo_errors := undo_errors r1 + 1\<rparr>,
                                      u_ops := u_ops st1 @ [Mkdir (parent dst), Move src dst]\<rparr>)))))))"

fun undo_loop ::
  "(path \<Rightarrow> path \<Rightarrow> move_outcome) \<Rightarrow> bool \<Rightarrow> move_entry list \<Rightarrow> undo_state \<Rightarrow> (error + undo_state) option" where
  "undo_loop outcome apply_mode [] st = Some (Inr st)"
| "undo_loop outcome apply_mode (entry # entries) st =
     (case undo_move outcome apply_mode entry st of
        None \<Rightarrow> None
      | Some (Inl e) \<Rightarrow> Some (Inl e)
      | Some (Inr st') \<Rightarrow> undo_loop outcome apply_mode entries st')"

definition undo_transaction ::
  "(path \<Rightarrow> path \<Rightarrow> move_outcome) \<Rightarrow> path set \<Rightarrow> stored_record \<Rightarrow> bool \<Rightarrow> (error + undo_state) option" where
  "undo_transaction outcome fs record apply_mode =
     (case rec_moves record of
        None \<Rightarrow> Some (Inl ValueError)
      | Some entries \<Rightarrow>
          (case undo_loop outcome apply_mode (rev entries)
                  \<lparr>u_fs = fs, u_occupied = {},
                   u_result = \<lparr>restored = 0, undo_collisions = 0, undo_errors = 0\<rparr>,
                   u_steps = [], u_ops = []\<rparr> of
             None \<Rightarrow> None
           | Some (Inl e) \<Rightarrow> Some (Inl e)
           | Some (Inr st) \<Rightarrow>
               Some (Inr (case rec_removed_dirs record of
                            None \<Rightarrow> st
                          | Some dirs \<Rightarrow>
                              if apply_mode
                              then st\<lparr>u_ops := u_ops st @ map (\<lambda>d. Mkdir (parse_path d)) dirs\<rparr>
                              else st))))"

record undo_run =
  undo_exit :: int
  undo_target :: "stored_record option"
  undo_outcome :: "undo_state option"
  undo_ops :: "fs_op list"

text \<open>
  \<open>run_undo\<close> on the loaded records. \<open>undo_target\<close> is the picked record as the command
  leaves it: stamped with the clock reading \<open>now_iso\<close> when \<open>mark_transaction_undone\<close>
  ran.
\<close>

definition run_undo ::
  "(path \<Rightarrow> path \<Rightarrow> move_outcome) \<Rightarrow> path set \<Rightarrow> string \<Rightarrow> stored_record list \<Rightarrow> string option
     \<Rightarrow> bool \<Rightarrow> (error + undo_run) option" where
  "run_undo outcome fs now_iso records wanted apply_mode =
     (case pick_transaction records wanted of
        None \<Rightarrow>
          Some (Inr \<lparr>undo_exit = 2, undo_target = None, undo_outcome = None, undo_ops = []\<rparr>)
      | Some target \<Rightarrow>
          if is_undone target
          then Some (Inr \<lparr>undo_exit = 2, undo_target = Some target, undo_outcome = None, undo_ops = []\<rparr>)
          else (case undo_transaction outcome fs target apply_mode of
                  None \<Rightarrow> None
                | Some (Inl e) \<Rightarrow> Some (Inl e)
                | Some (Inr st) \<Rightarrow>
                    (let mark = (apply_mode \<and> undo_errors (u_result st) = 0) in
                     Some (Inr
                       \<lparr>undo_exit = (if undo_errors (u_result st) \<noteq> 0 then 1 else 0),
                        undo_target = Some (if mark then target\<lparr>rec_undone_at := Some now_iso\<rparr> else target),
                        undo_outcome = Some st,
                        undo_ops = u_ops st @ (if mark then [WriteText (rec_path target)] else [])\<rparr>))))"


section \<open>Example inputs\<close>

text \<open>
  A file \<open>archive.tar.gz\<close>, a rule for \<open>.gz\<close> and a rule for \<open>.tar.gz\<close>; the two custom
  rules of the test suite, one naming four extensions and one naming one; and a string
  conversion that accepts no string as a number of days.
\<close>

definition no_str_days :: "string \<Rightarrow> (error + int) option" where
  "no_str_days s = None"








text \<open>
  The built-in rule for PDF documents; a source directory holding \<open>doc.pdf\<close>,
  \<open>video.mp4.part\<close> and \<open>unknown.xyz\<close>; a source directory holding \<open>doc.pdf\<close> and a
  sub-directory \<open>old\<close> with another \<open>doc.pdf\<close>; the default options of the command
  line; and a world in which the source and the destination exist, paths resolve to
  themselves and every move succeeds.
\<close>

definition pdf_rule :: rule where
  "pdf_rule =
     \<lparr>rule_id = ''pdf_documents'', description = ''PDF Documents'', subfolder = ''Documents/PDF'',
      enabled = True, built_in = True, mode = ''all'',
      conditions = [\<lparr>ctype = ''extension_any'', cvalue = ListValue [SStr ''.pdf'']\<rparr>]\<rparr>"

definition file_node :: "string \<Rightarrow> fsnode" where
  "file_node nm = FsNode nm False False 1 0 False []"

definition downloads_tree :: fsnode where
  "downloads_tree =
     FsNode ''src'' True False 0 0 False
       [file_node ''doc.pdf'', file_node ''video.mp4.part'', file_node ''unknown.xyz'']"

definition nested_tree :: fsnode where
  "nested_tree =
     FsNode ''src'' True False 0 0 False
       [file_node ''doc.pdf'', FsNode ''old'' True False 0 0 False [file_node ''doc.pdf'']]"

definition default_flags :: scan_options where
  "default_flags =
     \<lparr>include_subfolders = False, include_folders = False, include_empty_folders = False,
      ignore_extensions = [], ignore_paths = [], ignore_aliases = False, ignore_folders = False,
      include_tagged = False, ignore_tagged = False, skip_bundles = True\<rparr>"








text \<open>The existing paths of a destination that already holds \<open>Documents/PDF/doc.pdf\<close>.\<close>

definition occupied_fs :: "path set" where
  "occupied_fs =
     {Path True [''src''], Path True [''dest''], Path True [''dest'', ''Documents'', ''PDF'', ''doc.pdf'']}"

text \<open>
  The invariant of the planning loop: the claimed set is the set of planned
  destinations, which are pairwise distinct and do not exist.
\<close>

definition plans_ok :: "path set \<Rightarrow> plan_state \<Rightarrow> bool" where
  "plans_ok fs st =
     (occupied_targets st = set (map destination (plans st))
      \<and> distinct (map destination (plans st))
      \<and> set (map destination (plans st)) \<inter> fs = {})"

(*DEFS_END*)

section \<open>Decimal numerals are injective\<close>





section \<open>The collision loop returns a free path\<close>
















section \<open>Where the index goes\<close>
















section \<open>The default ignore extensions\<close>

text \<open>
  Claim C10. There are seven built-in ignore extensions, the four of the specification
  among them, and whatever the configuration and the command line add, every list
  \<open>combine_ignore_extensions\<close> returns holds all seven.
\<close>

theorem ignore_defaults_always_kept:
  "length DEFAULT_IGNORE_EXTENSIONS = 7 \<and> distinct DEFAULT_IGNORE_EXTENSIONS
   \<and> set [''.crdownload'', ''.part'', ''.partial'', ''.download''] \<subseteq> set DEFAULT_IGNORE_EXTENSIONS
   \<and> (\<forall>cfg cli exts. combine_ignore_extensions cfg cli = Inr exts \<longrightarrow>
         set DEFAULT_IGNORE_EXTENSIONS \<subseteq> set exts)"
proof -
  have "set DEFAULT_IGNORE_EXTENSIONS \<subseteq> set exts"
    if "combine_ignore_extensions cfg cli = Inr exts" for cfg cli exts
    using that unfolding combine_ignore_extensions_def Let_def
    by (auto split: option.splits if_splits sum.splits)
  then show ?thesis by (simp add: DEFAULT_IGNORE_EXTENSIONS_def)
qed

text \<open>The theorem with \<open>.bak\<close> from the configuration and \<open>LOG\<close> from the command line.\<close>

theorem ignore_defaults_always_kept_witness:
  "combine_ignore_extensions \<lparr>cfg_ignore_extensions = [''.bak''], cfg_ignore_paths = []\<rparr> (Some [''LOG''])
     = Inr [''.crdownload'', ''.part'', ''.partial'', ''.download'', ''.opdownload'', ''.!qb'', ''.tmp'',
            ''.bak'', ''.log'']
   \<and> set DEFAULT_IGNORE_EXTENSIONS
        \<subseteq> set [''.crdownload'', ''.part'', ''.partial'', ''.download'', ''.opdownload'', ''.!qb'', ''.tmp'',
            ''.bak'', ''.log'']"
proof -
  have e: "combine_ignore_extensions \<lparr>cfg_ignore_extensions = [''.bak''], cfg_ignore_paths = []\<rparr> (Some [''LOG''])
     = Inr [''.crdownload'', ''.part'', ''.partial'', ''.download'', ''.opdownload'', ''.!qb'', ''.tmp'',
            ''.bak'', ''.log'']"
    by (simp add: combine_ignore_extensions_def DEFAULT_IGNORE_EXTENSIONS_def normalize_extension_def
          strip_def strip_chars_def is_space_def lower_def lower_char_def startswith_def Let_def)
  with ignore_defaults_always_kept show ?thesis by blast
qed

section \<open>Which rule is assigned\<close>







section \<open>Priority optimization is a stable sort by descending score\<close>


















section \<open>The transaction record of a run\<close>


lemma execute_moves_apply_errors:
  "fst (snd (execute_moves outcome planned True)) = length (filter (\<lambda>p. outcome p \<noteq> MoveOk) planned)"
  by (induction planned) (auto split: prod.splits move_outcome.splits)

lemma execute_moves_dry: "execute_moves outcome planned False = ([], 0, [])"
  by (induction planned) auto







section \<open>Planned destinations never collide\<close>

lemma resolve_loop_free:
  assumes "resolve_loop fs occ target base suffix i = Some y"
  shows "\<forall>p r. y = Inr (p, r) \<longrightarrow> p \<notin> fs \<and> p \<notin> occ"
proof (rule resolve_loop.raw_induct
         [where P = "\<lambda>fs occ target base suffix i y. \<forall>p r. y = Inr (p, r) \<longrightarrow> p \<notin> fs \<and> p \<notin> occ",
          OF _ assms])
  fix loop :: "path set \<Rightarrow> path set \<Rightarrow> path \<Rightarrow> string \<Rightarrow> string \<Rightarrow> nat \<Rightarrow> (error + path \<times> bool) option"
  fix fs occ target base suffix i y
  assume ih: "\<And>fs occ target base suffix i y. loop fs occ target base suffix i = Some y
                \<Longrightarrow> \<forall>p r. y = Inr (p, r) \<longrightarrow> p \<notin> fs \<and> p \<notin> occ"
    and eq: "(case with_name target (candidate_name base suffix i) of
                Inl e \<Rightarrow> Some (Inl e)
              | Inr c \<Rightarrow>
                  if c \<notin> fs \<and> c \<notin> occ then Some (Inr (c, True))
                  else loop fs occ target base suffix (i + 1)) = Some y"
  show "\<forall>p r. y = Inr (p, r) \<longrightarrow> p \<notin> fs \<and> p \<notin> occ"
  proof (cases "with_name target (candidate_name base suffix i)")
    case (Inl e)
    with eq show ?thesis by auto
  next
    case (Inr c)
    show ?thesis
    proof (cases "c \<notin> fs \<and> c \<notin> occ")
      case True
      with eq Inr show ?thesis by auto
    next
      case False
      with eq Inr have "loop fs occ target base suffix (i + 1) = Some y" by auto
      then show ?thesis by (rule ih)
    qed
  qed
qed

lemma resolve_collision_free:
  assumes "resolve_collision fs target occ = Some (Inr (p, r))"
  shows "p \<notin> fs \<and> p \<notin> occ"
proof (cases "target \<notin> fs \<and> target \<notin> occ")
  case True
  with assms show ?thesis by (simp add: resolve_collision_def)
next
  case False
  with assms obtain base suffix where "resolve_loop fs occ target base suffix 1 = Some (Inr (p, r))"
    by (auto simp: resolve_collision_def split: prod.splits)
  then show ?thesis using resolve_loop_free by blast
qed
lemma plan_item_ok:
  assumes "plan_item sd fs dst rules t km item st = Some (Inr st')" and "plans_ok fs st"
  shows "plans_ok fs st'"
proof (cases "first_match sd rules item t km")
  case (Inl e)
  with assms show ?thesis by (simp add: plan_item_def)
next
  case (Inr found)
  show ?thesis
  proof (cases found)
    case None
    with assms(1) Inr have "plans st' = plans st" "occupied_targets st' = occupied_targets st"
      by (auto simp: plan_item_def)
    then show ?thesis using assms(2) by (simp add: plans_ok_def)
  next
    case (Some r)
    let ?target = "join_path (join_path dst (parse_path (subfolder r))) (parse_path (name item))"
    from assms(1) Inr Some obtain resolved collided
      where rc: "resolve_collision fs ?target (occupied_targets st) = Some (Inr (resolved, collided))"
        and oc: "occupied_targets st' = insert resolved (occupied_targets st)"
        and pl: "map destination (plans st') = map destination (plans st) @ [resolved]"
      by (auto simp: plan_item_def Let_def split: option.splits sum.splits prod.splits)
    from resolve_collision_free[OF rc] have "resolved \<notin> fs" "resolved \<notin> occupied_targets st" by simp_all
    then show ?thesis using assms(2) oc
      unfolding plans_ok_def pl by auto
  qed
qed

lemma plan_loop_ok:
  assumes "plan_loop sd fs dst rules t km items st = Some (Inr st')" and "plans_ok fs st"
  shows "plans_ok fs st'"
  using assms
proof (induction items arbitrary: st)
  case Nil
  then show ?case by simp
next
  case (Cons item items)
  from Cons.prems(1) obtain st1
    where a: "plan_item sd fs dst rules t km item st = Some (Inr st1)"
      and b: "plan_loop sd fs dst rules t km items st1 = Some (Inr st')"
    by (auto split: option.splits sum.splits)
  from plan_item_ok[OF a Cons.prems(2)] have "plans_ok fs st1" .
  with b show ?case by (rule Cons.IH)
qed

lemma plan_moves_loop:
  assumes "plan_moves sd resolve fs t tree src dst rules opts = Some (Inr (planned, summ))"
  shows "\<exists>candidates n st.
           iter_candidate_items opts resolve src dst tree = Inr (candidates, n)
           \<and> plan_loop sd fs dst (filter enabled rules) t build_kind_extensions
                (sort_candidates candidates)
                \<lparr>occupied_targets = {}, plans = [],
                 summary = empty_summary\<lparr>ignored := n, scanned := length candidates,
                                           total_targets := length candidates\<rparr>,
                 used_rules = {}\<rparr> = Some (Inr st)
           \<and> planned = plans st"
  using assms unfolding plan_moves_def Let_def
  by (auto split: sum.splits option.splits prod.splits)

text \<open>
  Claim C1. In every move plan that \<open>plan_moves\<close> returns, the destinations are pairwise
  distinct, none of them exists (planning does not change the file system, so \<open>fs\<close> is
  the file system at every resolution), and none equals a destination claimed by an
  earlier entry of the same plan.
\<close>

theorem planned_destinations_distinct_and_free:
  assumes "plan_moves sd resolve fs t tree src dst rules opts = Some (Inr (planned, summ))"
  shows "distinct (map destination planned)
         \<and> (\<forall>p\<in>set planned. destination p \<notin> fs)
         \<and> (\<forall>i<length planned. destination (planned ! i) \<notin> destination ` set (take i planned))"
proof -
  from plan_moves_loop[OF assms] obtain candidates n st
    where l: "plan_loop sd fs dst (filter enabled rules) t build_kind_extensions
                (sort_candidates candidates)
                \<lparr>occupied_targets = {}, plans = [],
                 summary = empty_summary\<lparr>ignored := n, scanned := length candidates,
                                           total_targets := length candidates\<rparr>,
                 used_rules = {}\<rparr> = Some (Inr st)"
      and p: "planned = plans st" by blast
  have "plans_ok fs \<lparr>occupied_targets = {}, plans = [],
                 summary = empty_summary\<lparr>ignored := n, scanned := length candidates,
                                           total_targets := length candidates\<rparr>,
                 used_rules = {}\<rparr>" by (simp add: plans_ok_def)
  from plan_loop_ok[OF l this] have ok: "plans_ok fs st" .
  then have d: "distinct (map destination planned)" and f: "\<forall>p\<in>set planned. destination p \<notin> fs"
    using p by (auto simp: plans_ok_def)
  have "destination (planned ! i) \<notin> destination ` set (take i planned)" if "i < length planned" for i
  proof
    assume "destination (planned ! i) \<in> destination ` set (take i planned)"
    then obtain q where q: "q \<in> set (take i planned)" "destination q = destination (planned ! i)" by auto
    then obtain j where j: "j < i" "planned ! j = q"
      using that by (auto simp: in_set_conv_nth)
    then have "map destination planned ! j = map destination planned ! i" using q that by simp
    then show False using d j(1) that by (simp add: nth_eq_iff_index_eq del: nth_map)
  qed
  with d f show ?thesis by blast
qed

lemma nested_plan:
  "(case plan_moves no_str_days (\<lambda>p. p) occupied_fs 0 nested_tree (Path True [''src''])
           (Path True [''dest'']) [pdf_rule]
           (default_flags\<lparr>include_subfolders := True, ignore_extensions := DEFAULT_IGNORE_EXTENSIONS\<rparr>) of
      Some (Inr (planned, summ)) \<Rightarrow>
        map (\<lambda>p. (source p, destination p, collision_renamed p)) planned
          = [(Path True [''src'', ''old'', ''doc.pdf''],
              Path True [''dest'', ''Documents'', ''PDF'', ''doc (1).pdf''], True),
             (Path True [''src'', ''doc.pdf''],
              Path True [''dest'', ''Documents'', ''PDF'', ''doc (2).pdf''], True)]
        \<and> collisions summ = 2
    | _ \<Rightarrow> False)"
  by code_simp

text \<open>
  The theorem on a run that finds \<open>old/doc.pdf\<close> and \<open>doc.pdf\<close> while the destination
  already holds \<open>doc.pdf\<close>: the plan holds \<open>doc (1).pdf\<close> and \<open>doc (2).pdf\<close>.
\<close>

theorem planned_destinations_distinct_and_free_witness:
  "\<exists>planned summ.
     plan_moves no_str_days (\<lambda>p. p) occupied_fs 0 nested_tree (Path True [''src''])
       (Path True [''dest'']) [pdf_rule]
       (default_flags\<lparr>include_subfolders := True, ignore_extensions := DEFAULT_IGNORE_EXTENSIONS\<rparr>)
       = Some (Inr (planned, summ))
     \<and> map destination planned
         = [Path True [''dest'', ''Documents'', ''PDF'', ''doc (1).pdf''],
            Path True [''dest'', ''Documents'', ''PDF'', ''doc (2).pdf'']]
     \<and> distinct (map destination planned)
     \<and> (\<forall>p\<in>set planned. destination p \<notin> occupied_fs)"
proof -
  from nested_plan obtain planned summ
    where r: "plan_moves no_str_days (\<lambda>p. p) occupied_fs 0 nested_tree (Path True [''src''])
       (Path True [''dest'']) [pdf_rule]
       (default_flags\<lparr>include_subfolders := True, ignore_extensions := DEFAULT_IGNORE_EXTENSIONS\<rparr>)
       = Some (Inr (planned, summ))"
      and m: "map (\<lambda>p. (source p, destination p, collision_renamed p)) planned
          = [(Path True [''src'', ''old'', ''doc.pdf''],
              Path True [''dest'', ''Documents'', ''PDF'', ''doc (1).pdf''], True),
             (Path True [''src'', ''doc.pdf''],
              Path True [''dest'', ''Documents'', ''PDF'', ''doc (2).pdf''], True)]"
    by (auto split: option.splits sum.splits)
  from m have d: "map destination planned
         = [Path True [''dest'', ''Documents'', ''PDF'', ''doc (1).pdf''],
            Path True [''dest'', ''Documents'', ''PDF'', ''doc (2).pdf'']]"
    by auto
  from planned_destinations_distinct_and_free[OF r]
  have "distinct (map destination planned)" "\<forall>p\<in>set planned. destination p \<notin> occupied_fs"
    by simp_all
  with r d show ?thesis by (intro exI[of _ planned] exI[of _ summ]) simp
qed

end
